theory Spec2Isabelle
  imports Main
begin

section \<open>The producer daemon of package stream\<close>

text \<open>
  A shallow embedding of the producer daemon (package \<open>stream\<close>): the daemon struct is a
  record, every method takes the daemon and returns the updated daemon together with its
  Go return value. A Go \<open>error\<close> result is an \<open>option\<close> (\<open>None\<close> is \<open>nil\<close>), a
  \<open>(value, error)\<close> result is a sum (\<open>Inl\<close> the error). A run-time panic (a slice bound
  out of range, a method call on the nil ticker) is the outer \<open>None\<close> of a method's result.
  The lock \<open>lck\<close> serialises the methods; the model describes one method call running
  alone under the lock.
\<close>

subsection \<open>Errors, attributes, metrics, log lines\<close>

text \<open>
  \<open>Cause e\<close> is an error of a collaborator; \<open>Errorf msg err\<close> is
  \<open>fmt.Errorf("<msg>: %w", err)\<close> with the format's verbs for the daemon name already
  filled into \<open>msg\<close>.
\<close>

datatype 'e error = Cause 'e | Errorf string "'e error"

text \<open>A value of type \<open>interface{}\<close> in an attribute map: the boolean the daemon stamps, or
  anything else.\<close>

datatype 'a iface = BoolValue bool | OtherValue 'a

type_synonym 'a attributes = "string \<rightharpoonup> 'a iface"

type_synonym ('m, 'a, 'e) AggregateMarshaller =
  "'m list \<Rightarrow> 'a attributes list \<Rightarrow> 'e error + 'm"

text \<open>
  The sink, interface \<open>Output\<close>, by its answers: applied to \<open>k\<close> and a batch it gives
  what \<open>output.Write(ctx, batch)\<close> returns when \<open>k\<close> calls of the sink were made before
  this one (\<open>None\<close> is nil). The answer may differ from call to call, also on equal
  batches.
\<close>

type_synonym ('m, 'e) Output = "nat \<Rightarrow> 'm list \<Rightarrow> 'e error option"

definition AttributeAggregate :: string where
  "AttributeAggregate = ''goso.aggregate''"

definition metricNameMessageCount :: string where
  "metricNameMessageCount = ''MessageCount''"

definition metricNameBatchSize :: string where
  "metricNameBatchSize = ''BatchSize''"

definition metricNameAggregateSize :: string where
  "metricNameAggregateSize = ''AggregateSize''"

definition metricNameIdleDuration :: string where
  "metricNameIdleDuration = ''IdleDuration''"

definition PriorityHigh :: int where
  "PriorityHigh = 2"

definition UnitMillisecondsAverage :: string where
  "UnitMillisecondsAverage = ''UnitMillisecondsAverage''"

text \<open>
  \<open>mon.MetricDatum\<close>. \<open>Value\<close> is a \<open>float64\<close> in the source; the daemon only stores
  conversions of lengths and of millisecond counts, which \<open>float64\<close> holds exactly, so
  the model keeps the integer. A field the daemon does not set has Go's zero value.
\<close>

record MetricDatum =
  Priority :: int
  MetricName :: string
  Dimensions :: "string \<rightharpoonup> string"
  Value :: int
  Unit :: string

text \<open>A line handed to the logger: \<open>logger.Warn(msg)\<close> or \<open>logger.Error(err, msg)\<close>.\<close>

datatype 'e log_line = Warn string | Error "'e error" string

subsection \<open>Settings and daemon\<close>

text \<open>\<open>Interval\<close> is a \<open>time.Duration\<close>: a count of nanoseconds.\<close>

record 'a ProducerDaemonSettings =
  Enabled :: bool
  Interval :: int
  BufferSize :: int
  RunnerCount :: int
  BatchSize :: int
  AggregationSize :: int
  MessageAttributes :: "'a attributes"

text \<open>
  The struct \<open>ProducerDaemon\<close>. The collaborators are represented by what the daemon did
  to them: \<open>logger\<close> and \<open>metric\<close> hold the lines and data written so far, \<open>outCh\<close> the
  batches pushed onto the output channel and not yet read, oldest first, \<open>written\<close> the
  batches handed to \<open>output.Write\<close> so far, in the order of the calls. \<open>ticker\<close> is
  \<open>None\<close> while the field is nil (before \<open>Run\<close>) and \<open>Some n\<close> once \<open>Run\<close> created it,
  \<open>n\<close> counting the calls of \<open>Reset\<close>.
\<close>

record ('m, 'a, 'e) ProducerDaemon =
  name :: string
  logger :: "'e log_line list"
  metric :: "MetricDatum list"
  aggregate :: "'m list"
  batch :: "'m list"
  outCh :: "'m list list"
  output' :: "('m, 'e) Output"
  written :: "'m list list"
  ticker :: "nat option"
  marshaller :: "('m, 'a, 'e) AggregateMarshaller"
  settings :: "'a ProducerDaemonSettings"

text \<open>
  \<open>make([]WritableMessage, 0, settings.BatchSize)\<close> panics when the capacity is
  negative: the constructor then gives \<open>None\<close>. How large a capacity the runtime can
  allocate is outside the model.
\<close>

definition NewProducerDaemonWithInterfaces ::
  "('m, 'e) Output \<Rightarrow> ('m, 'a, 'e) AggregateMarshaller \<Rightarrow> string \<Rightarrow>
   'a ProducerDaemonSettings \<Rightarrow> ('m, 'a, 'e) ProducerDaemon option" where
  "NewProducerDaemonWithInterfaces out m n s =
     (if BatchSize s < 0 then None
      else Some
        \<lparr>name = n, logger = [], metric = [], aggregate = [], batch = [], outCh = [],
         output' = out, written = [], ticker = None, marshaller = m, settings = s\<rparr>)"

text \<open>The first statement of \<open>Run\<close>: the ticker is created from the factory.\<close>

definition Run_ticker :: "('m, 'a, 'e) ProducerDaemon \<Rightarrow> ('m, 'a, 'e) ProducerDaemon" where
  "Run_ticker d = d\<lparr>ticker := Some 0\<rparr>"

subsection \<open>Metrics\<close>

definition writeMetricMessageCount ::
  "('m, 'a, 'e) ProducerDaemon \<Rightarrow> int \<Rightarrow> ('m, 'a, 'e) ProducerDaemon" where
  "writeMetricMessageCount d count =
     d\<lparr>metric := metric d @
        [\<lparr>Priority = 0, MetricName = metricNameMessageCount,
          Dimensions = [''ProducerDaemon'' \<mapsto> name d], Value = count, Unit = ''''\<rparr>]\<rparr>"

definition writeMetricBatchSize ::
  "('m, 'a, 'e) ProducerDaemon \<Rightarrow> int \<Rightarrow> ('m, 'a, 'e) ProducerDaemon" where
  "writeMetricBatchSize d sz =
     d\<lparr>metric := metric d @
        [\<lparr>Priority = 0, MetricName = metricNameBatchSize,
          Dimensions = [''ProducerDaemon'' \<mapsto> name d], Value = sz, Unit = ''''\<rparr>]\<rparr>"

definition writeMetricAggregateSize ::
  "('m, 'a, 'e) ProducerDaemon \<Rightarrow> int \<Rightarrow> ('m, 'a, 'e) ProducerDaemon" where
  "writeMetricAggregateSize d sz =
     d\<lparr>metric := metric d @
        [\<lparr>Priority = 0, MetricName = metricNameAggregateSize,
          Dimensions = [''ProducerDaemon'' \<mapsto> name d], Value = sz, Unit = ''''\<rparr>]\<rparr>"

text \<open>\<open>Duration.Milliseconds\<close>: the nanoseconds divided by \<open>1e6\<close>, rounded towards zero
  as Go's integer division does.\<close>

definition Milliseconds :: "int \<Rightarrow> int" where
  "Milliseconds d = (if d < 0 then - ((- d) div 1000000) else d div 1000000)"

definition writeMetricIdleDuration ::
  "('m, 'a, 'e) ProducerDaemon \<Rightarrow> int \<Rightarrow> ('m, 'a, 'e) ProducerDaemon" where
  "writeMetricIdleDuration d idleDuration =
     (let idleDuration' =
            (if idleDuration > Interval (settings d) then Interval (settings d)
             else idleDuration)
      in d\<lparr>metric := metric d @
        [\<lparr>Priority = PriorityHigh, MetricName = metricNameIdleDuration,
          Dimensions = [''ProducerDaemon'' \<mapsto> name d],
          Value = Milliseconds idleDuration', Unit = UnitMillisecondsAverage\<rparr>]\<rparr>)"

subsection \<open>Aggregation and batching\<close>

definition BuildAggregateMessage ::
  "('m, 'a, 'e) AggregateMarshaller \<Rightarrow> 'm list \<Rightarrow> 'a attributes list \<Rightarrow> 'e error + 'm" where
  "BuildAggregateMessage m agg attrs =
     m agg (attrs @ [[AttributeAggregate \<mapsto> BoolValue True]])"

text \<open>
  \<open>flushAggregate\<close>: \<open>sz\<close> is the local \<open>size\<close>. The slice expressions
  \<open>d.aggregate[:size]\<close> and \<open>d.aggregate[size:]\<close> panic when \<open>size\<close> is negative,
  which a negative \<open>AggregationSize\<close> brings about.
\<close>

definition flushAggregate ::
  "('m, 'a, 'e) ProducerDaemon \<Rightarrow>
   (('m, 'a, 'e) ProducerDaemon \<times> ('e error + 'm list)) option" where
  "flushAggregate d =
     (if length (aggregate d) = 0 then Some (d, Inr [])
      else
        let sz = (if int (length (aggregate d)) < AggregationSize (settings d)
                  then int (length (aggregate d)) else AggregationSize (settings d))
        in if sz < 0 then None
           else
             let readyAggregate = take (nat sz) (aggregate d);
                 d1 = d\<lparr>aggregate := drop (nat sz) (aggregate d)\<rparr>;
                 d2 = writeMetricAggregateSize d1 (int (length readyAggregate))
             in (case BuildAggregateMessage (marshaller d2) readyAggregate
                        [MessageAttributes (settings d2)] of
                   Inl err \<Rightarrow> Some (d2, Inl (Errorf ''can not marshal aggregate'' err))
                 | Inr aggregateMessage \<Rightarrow> Some (d2, Inr [aggregateMessage])))"

definition applyAggregation ::
  "('m, 'a, 'e) ProducerDaemon \<Rightarrow> 'm list \<Rightarrow>
   (('m, 'a, 'e) ProducerDaemon \<times> ('e error + 'm list)) option" where
  "applyAggregation d b =
     (if AggregationSize (settings d) \<le> 1 then Some (d, Inr b)
      else
        let d1 = d\<lparr>aggregate := aggregate d @ b\<rparr>
        in if int (length (aggregate d1)) < AggregationSize (settings d1)
           then Some (d1, Inr [])
           else flushAggregate d1)"

text \<open>
  Modelled from the spec: the type \<open>OutputChannel\<close> and its method \<open>Write\<close> are not
  among the source files. The spec describes the output channel as a closable queue of
  ready batches between the buffering logic and the workers, delivered in the order
  pushed; a push appends the batch at the end of the queue. Its capacity, which only
  decides how long a push waits, is left out.
\<close>

definition OutputChannel_Write :: "'m list list \<Rightarrow> 'm list \<Rightarrow> 'm list list" where
  "OutputChannel_Write ch b = ch @ [b]"

definition flushBatch ::
  "('m, 'a, 'e) ProducerDaemon \<Rightarrow> ('m, 'a, 'e) ProducerDaemon option" where
  "flushBatch d =
     (if length (batch d) = 0 then Some d
      else
        let sz = (if int (length (batch d)) < BatchSize (settings d)
                  then int (length (batch d)) else BatchSize (settings d))
        in if sz < 0 then None
           else
             let readyBatch = take (nat sz) (batch d);
                 d1 = d\<lparr>batch := drop (nat sz) (batch d)\<rparr>
             in Some (d1\<lparr>outCh := OutputChannel_Write (outCh d1) readyBatch\<rparr>))"

definition flushAll ::
  "('m, 'a, 'e) ProducerDaemon \<Rightarrow>
   (('m, 'a, 'e) ProducerDaemon \<times> 'e error option) option" where
  "flushAll d =
     (case flushAggregate d of
        None \<Rightarrow> None
      | Some (d1, Inl err) \<Rightarrow> Some (d1, Some (Errorf ''can not flush aggregation'' err))
      | Some (d1, Inr b) \<Rightarrow>
          (case flushBatch (d1\<lparr>batch := batch d1 @ b\<rparr>) of
             None \<Rightarrow> None
           | Some d2 \<Rightarrow> Some (d2, None)))"

text \<open>\<open>Write\<close>. The context argument is ignored by the source and left out.\<close>

definition Write ::
  "('m, 'a, 'e) ProducerDaemon \<Rightarrow> 'm list \<Rightarrow>
   (('m, 'a, 'e) ProducerDaemon \<times> 'e error option) option" where
  "Write d b =
     (let d0 = writeMetricMessageCount d (int (length b))
      in case applyAggregation d0 b of
           None \<Rightarrow> None
         | Some (d1, Inl err) \<Rightarrow>
             Some (d1, Some (Errorf (''can not apply aggregation in producer '' @ name d1) err))
         | Some (d1, Inr b') \<Rightarrow>
             let d2 = d1\<lparr>batch := batch d1 @ b'\<rparr>
             in if int (length (batch d2)) < BatchSize (settings d2) then Some (d2, None)
                else (case ticker d2 of
                        None \<Rightarrow> None
                      | Some n \<Rightarrow>
                          (case flushBatch (d2\<lparr>ticker := Some (Suc n)\<rparr>) of
                             None \<Rightarrow> None
                           | Some d3 \<Rightarrow> Some (d3, None))))"

definition WriteOne ::
  "('m, 'a, 'e) ProducerDaemon \<Rightarrow> 'm \<Rightarrow>
   (('m, 'a, 'e) ProducerDaemon \<times> 'e error option) option" where
  "WriteOne d msg = Write d [msg]"

subsection \<open>The ticker loop and the output loop\<close>

text \<open>
  One turn of \<open>tickerLoop\<close> on a tick: \<open>flushAll\<close> under the lock, its error logged.
\<close>

definition tickerLoop_tick ::
  "('m, 'a, 'e) ProducerDaemon \<Rightarrow> ('m, 'a, 'e) ProducerDaemon option" where
  "tickerLoop_tick d =
     (case flushAll d of
        None \<Rightarrow> None
      | Some (d1, Some err) \<Rightarrow>
          Some (d1\<lparr>logger := logger d1 @ [Error err ''can not flush all messages'']\<rparr>)
      | Some (d1, None) \<Rightarrow> Some d1)"

text \<open>
  Modelled from the spec: the method \<open>Read\<close> of the output channel is not among the
  source files. The spec has the workers dequeue one batch at a time, oldest first,
  suspend while the channel is empty, and learn that the channel is closed once it is
  closed and drained. \<open>closed\<close> says whether the channel has been closed.
\<close>

datatype 'm read =
  Batch "'m list" "'m list list"
| Closed
| Waits

definition OutputChannel_Read :: "'m list list \<Rightarrow> bool \<Rightarrow> 'm read" where
  "OutputChannel_Read ch closed =
     (case ch of
        b # rest \<Rightarrow> Batch b rest
      | [] \<Rightarrow> (if closed then Closed else Waits))"

text \<open>
  How a run of \<open>outputLoop\<close> ends: it returns its error result, or it does not return
  and stays suspended in \<open>outCh.Read\<close> on an empty channel that nobody has closed.
\<close>

datatype 'e loop_end = Returned "'e error option" | Suspended

text \<open>
  One turn of \<open>outputLoop\<close> after a read that gave the batch \<open>b\<close> (the statements that
  follow the test of \<open>ok\<close>): the batch goes to the sink, an error of the sink is
  logged, the two metrics are recorded. \<open>isRequestCanceled\<close> stands for
  \<open>exec.IsRequestCanceled\<close>.
\<close>

definition outputLoop_turn ::
  "('e error \<Rightarrow> bool) \<Rightarrow> ('m, 'a, 'e) ProducerDaemon \<Rightarrow> 'm list \<Rightarrow> int \<Rightarrow>
   ('m, 'a, 'e) ProducerDaemon" where
  "outputLoop_turn isRequestCanceled d b idleDuration =
     (let d1 = d\<lparr>written := written d @ [b]\<rparr>;
          d2 = (case output' d (length (written d)) b of
                  None \<Rightarrow> d1
                | Some err \<Rightarrow>
                    if isRequestCanceled err
                    then d1\<lparr>logger := logger d1 @
                           [Warn (''can not write messages to output in producer '' @ name d1 @
                                  '' because of canceled context'')]\<rparr>
                    else d1\<lparr>logger := logger d1 @
                           [Error err (''can not write messages to output in producer '' @
                                       name d1)]\<rparr>);
          d3 = writeMetricBatchSize d2 (int (length b));
          d4 = writeMetricIdleDuration d3 idleDuration
      in d4)"

text \<open>
  \<open>outputLoop\<close> of one worker, running on the daemon's output channel with nothing
  else running: every turn dequeues the oldest batch. \<open>idle k\<close> is the idle duration
  (nanoseconds) the worker measures around the read that precedes call \<open>k\<close> of the
  sink. The loop returns nil on the read that reports the channel closed.
\<close>

function outputLoop ::
  "('e error \<Rightarrow> bool) \<Rightarrow> (nat \<Rightarrow> int) \<Rightarrow> bool \<Rightarrow> ('m, 'a, 'e) ProducerDaemon \<Rightarrow>
   ('m, 'a, 'e) ProducerDaemon \<times> 'e loop_end" where
  "outputLoop isRequestCanceled idle closed d =
     (case OutputChannel_Read (outCh d) closed of
        Closed \<Rightarrow> (d, Returned None)
      | Waits \<Rightarrow> (d, Suspended)
      | Batch b rest \<Rightarrow>
          outputLoop isRequestCanceled idle closed
            (outputLoop_turn isRequestCanceled (d\<lparr>outCh := rest\<rparr>) b
               (idle (length (written d)))))"
  by pat_completeness auto

termination
  by (relation "measure (\<lambda>(isRequestCanceled, idle, closed, d). length (outCh d))")
     (auto simp: OutputChannel_Read_def outputLoop_turn_def Let_def writeMetricBatchSize_def
        writeMetricIdleDuration_def split: list.splits if_splits option.splits)

declare outputLoop.simps [simp del]

text \<open>
  The fields of the daemon that decide what \<open>Write\<close> and the flushes return:
  everything but \<open>logger\<close>, \<open>metric\<close>, \<open>outCh\<close>, \<open>output'\<close> and \<open>written\<close>.
\<close>

abbreviation (input) core ::
  "('m, 'a, 'e) ProducerDaemon \<Rightarrow>
   'm list \<times> 'm list \<times> 'a ProducerDaemonSettings \<times>
   ('m, 'a, 'e) AggregateMarshaller \<times> nat option \<times> string" where
  "core d \<equiv> (aggregate d, batch d, settings d, marshaller d, ticker d, name d)"

subsection \<open>The registry of daemons\<close>

text \<open>
  \<open>NewProducerDaemon\<close> calls \<open>readProducerSettings\<close>, \<open>NewConfigurableOutput\<close> and
  uses \<open>MarshalJsonMessage\<close>, none of which is among the source files: they are taken
  as parameters. The settings read are a pair, the field \<open>Output\<close> and the field
  \<open>Daemon\<close>. The default metrics only parametrise the metric writer; the logger and
  the output channel start with nothing written. An error of the output is returned
  before the daemon is built; building it panics in
  \<open>make([]WritableMessage, 0, settings.Daemon.BatchSize)\<close> when the batch size is
  negative, which is the result \<open>None\<close>.
\<close>

record ('c, 'o, 'm, 'a, 'e) collaborators =
  readProducerSettings :: "'c \<Rightarrow> string \<Rightarrow> 'o \<times> 'a ProducerDaemonSettings"
  NewConfigurableOutput :: "'c \<Rightarrow> 'o \<Rightarrow> 'e error + ('m, 'e) Output"
  MarshalJsonMessage :: "('m, 'a, 'e) AggregateMarshaller"

definition NewProducerDaemon ::
  "('c, 'o, 'm, 'a, 'e) collaborators \<Rightarrow> 'c \<Rightarrow> string \<Rightarrow>
   ('e error + ('m, 'a, 'e) ProducerDaemon) option" where
  "NewProducerDaemon env config n =
     (case readProducerSettings env config n of
        (settingsOutput, settingsDaemon) \<Rightarrow>
          (case NewConfigurableOutput env config settingsOutput of
             Inl err \<Rightarrow>
               Some (Inl (Errorf (''can not create output for producer daemon '' @ n) err))
           | Inr out \<Rightarrow>
               if BatchSize settingsDaemon < 0 then None
               else Some (Inr
                 \<lparr>name = n, logger = [], metric = [], aggregate = [], batch = [],
                  outCh = [], output' = out, written = [], ticker = None,
                  marshaller = MarshalJsonMessage env, settings = settingsDaemon\<rparr>)))"

text \<open>
  The package variables: \<open>producerDaemons\<close> maps a name to a pointer, and \<open>heap\<close> holds
  the daemons allocated so far. A pointer is \<open>None\<close> (nil) or \<open>Some i\<close>, the daemon
  at index \<open>i\<close> of the heap; allocation appends to the heap.
\<close>

record ('m, 'a, 'e) package_vars =
  producerDaemons :: "string \<rightharpoonup> nat option"
  heap :: "('m, 'a, 'e) ProducerDaemon list"

definition ResetProducerDaemons ::
  "('m, 'a, 'e) package_vars \<Rightarrow> ('m, 'a, 'e) package_vars" where
  "ResetProducerDaemons s = s\<lparr>producerDaemons := Map.empty\<rparr>"

text \<open>
  \<open>ProvideProducerDaemon\<close> returns the pair \<open>(pointer, error)\<close>. The assignment
  \<open>producerDaemons[name], err = NewProducerDaemon(...)\<close> stores the returned pointer
  under the name before the error is looked at. A panic of the constructor leaves the
  call without a result (\<open>None\<close>).
\<close>

definition ProvideProducerDaemon ::
  "('c, 'o, 'm, 'a, 'e) collaborators \<Rightarrow> ('m, 'a, 'e) package_vars \<Rightarrow> 'c \<Rightarrow> string \<Rightarrow>
   (('m, 'a, 'e) package_vars \<times> nat option \<times> 'e error option) option" where
  "ProvideProducerDaemon env s config n =
     (case producerDaemons s n of
        Some p \<Rightarrow> Some (s, p, None)
      | None \<Rightarrow>
          (case NewProducerDaemon env config n of
             None \<Rightarrow> None
           | Some (Inl err) \<Rightarrow>
               Some (s\<lparr>producerDaemons := (producerDaemons s)(n \<mapsto> None)\<rparr>, None, Some err)
           | Some (Inr d) \<Rightarrow>
               (let p = Some (length (heap s));
                    s1 = s\<lparr>heap := heap s @ [d]\<rparr>;
                    s2 = s1\<lparr>producerDaemons := (producerDaemons s1)(n \<mapsto> p)\<rparr>
                in Some (s2, p, None))))"

subsection \<open>Concrete daemons\<close>

text \<open>
  The scenario of the specification: an interval of one second, batches of ten, no
  aggregation, one runner; the messages are numbers, the sink accepts every batch.
\<close>

definition scenario_settings :: "unit ProducerDaemonSettings" where
  "scenario_settings =
     \<lparr>Enabled = True, Interval = 1000000000, BufferSize = 10, RunnerCount = 1,
      BatchSize = 10, AggregationSize = 1, MessageAttributes = Map.empty\<rparr>"

definition scenario_daemon :: "(nat, unit, string) ProducerDaemon" where
  "scenario_daemon =
     Run_ticker (the (NewProducerDaemonWithInterfaces (\<lambda>k b. None)
       (\<lambda>agg attrs. Inr (sum_list agg)) ''scenario'' scenario_settings))"

text \<open>
  A daemon that aggregates three messages into their sum and sends batches of two; a
  second one whose marshaller fails on every aggregate, and whose sink fails on every
  batch; a third one whose sink fails on every second call, with a cancelled request
  on the first call and another error on the third.
\<close>

definition summing_settings :: "unit ProducerDaemonSettings" where
  "summing_settings =
     \<lparr>Enabled = True, Interval = 1000000000, BufferSize = 10, RunnerCount = 1,
      BatchSize = 2, AggregationSize = 3, MessageAttributes = Map.empty\<rparr>"

definition summing_daemon :: "(nat, unit, string) ProducerDaemon" where
  "summing_daemon =
     Run_ticker (the (NewProducerDaemonWithInterfaces (\<lambda>k b. None)
       (\<lambda>agg attrs. Inr (sum_list agg)) ''summing'' summing_settings))"

definition failing_daemon :: "(nat, unit, string) ProducerDaemon" where
  "failing_daemon =
     Run_ticker (the (NewProducerDaemonWithInterfaces (\<lambda>k b. Some (Cause ''sink''))
       (\<lambda>agg attrs. Inl (Cause ''marshal'')) ''failing'' summing_settings))"

definition flaky_daemon :: "(nat, unit, string) ProducerDaemon" where
  "flaky_daemon =
     Run_ticker (the (NewProducerDaemonWithInterfaces
       (\<lambda>k b. if k = 0 then Some (Cause ''canceled'')
              else if k = 2 then Some (Cause ''broken'') else None)
       (\<lambda>agg attrs. Inr (sum_list agg)) ''flaky'' summing_settings))"

definition scenario_collaborators ::
  "(bool, unit, nat, unit, string) collaborators" where
  "scenario_collaborators =
     \<lparr>readProducerSettings = (\<lambda>config n. ((), scenario_settings)),
      NewConfigurableOutput =
        (\<lambda>config o_settings.
           if config then Inr (\<lambda>k b. None) else Inl (Cause ''no output'')),
      MarshalJsonMessage = (\<lambda>agg attrs. Inr (sum_list agg))\<rparr>"

definition no_daemons :: "(nat, unit, string) package_vars" where
  "no_daemons = \<lparr>producerDaemons = Map.empty, heap = []\<rparr>"

section \<open>Properties\<close>

subsection \<open>Auxiliary facts about the buffers\<close>

lemmas example_defs =
  scenario_daemon_def scenario_settings_def summing_daemon_def summing_settings_def
  failing_daemon_def flaky_daemon_def Run_ticker_def NewProducerDaemonWithInterfaces_def

lemma length_take_nat:
  "0 \<le> n \<Longrightarrow> n \<le> int (length xs) \<Longrightarrow> int (length (take (nat n) xs)) = n"
  by simp

lemma flushBatch_eq:
  assumes "0 \<le> BatchSize (settings d)"
  shows "flushBatch d =
     Some (if batch d = [] then d
           else d\<lparr>batch := drop (nat (BatchSize (settings d))) (batch d),
                  outCh := outCh d @ [take (nat (BatchSize (settings d))) (batch d)]\<rparr>)"
  using assms by (auto simp: flushBatch_def OutputChannel_Write_def Let_def)

lemma flushAggregate_empty: "aggregate d = [] \<Longrightarrow> flushAggregate d = Some (d, Inr [])"
  by (simp add: flushAggregate_def)

lemma flushAggregate_eq:
  assumes "0 \<le> AggregationSize (settings d)" "aggregate d \<noteq> []"
  shows "flushAggregate d =
     Some (writeMetricAggregateSize
             (d\<lparr>aggregate := drop (nat (AggregationSize (settings d))) (aggregate d)\<rparr>)
             (int (length (take (nat (AggregationSize (settings d))) (aggregate d)))),
           case marshaller d (take (nat (AggregationSize (settings d))) (aggregate d))
                  [MessageAttributes (settings d), [AttributeAggregate \<mapsto> BoolValue True]] of
             Inl err \<Rightarrow> Inl (Errorf ''can not marshal aggregate'' err)
           | Inr m \<Rightarrow> Inr [m])"
  using assms
  by (auto simp: flushAggregate_def Let_def BuildAggregateMessage_def writeMetricAggregateSize_def
       split: sum.splits)

lemma flushAggregate_full:
  assumes "0 \<le> AggregationSize (settings d)"
    and "AggregationSize (settings d) \<le> int (length (aggregate d))"
    and "aggregate d \<noteq> []"
  shows "flushAggregate d =
     Some (writeMetricAggregateSize
             (d\<lparr>aggregate := drop (nat (AggregationSize (settings d))) (aggregate d)\<rparr>)
             (AggregationSize (settings d)),
           case marshaller d (take (nat (AggregationSize (settings d))) (aggregate d))
                  [MessageAttributes (settings d), [AttributeAggregate \<mapsto> BoolValue True]] of
             Inl err \<Rightarrow> Inl (Errorf ''can not marshal aggregate'' err)
           | Inr m \<Rightarrow> Inr [m])"
  using flushAggregate_eq[OF assms(1,3)] length_take_nat[OF assms(1,2)]
  by (simp only:)

lemma applyAggregation_threshold:
  assumes "1 < AggregationSize (settings d)"
  shows "applyAggregation d b =
     (if int (length (aggregate d @ b)) < AggregationSize (settings d)
      then Some (d\<lparr>aggregate := aggregate d @ b\<rparr>, Inr [])
      else Some (writeMetricAggregateSize
             (d\<lparr>aggregate := drop (nat (AggregationSize (settings d))) (aggregate d @ b)\<rparr>)
             (AggregationSize (settings d)),
           case marshaller d (take (nat (AggregationSize (settings d))) (aggregate d @ b))
                  [MessageAttributes (settings d), [AttributeAggregate \<mapsto> BoolValue True]] of
             Inl err \<Rightarrow> Inl (Errorf ''can not marshal aggregate'' err)
           | Inr m \<Rightarrow> Inr [m]))"
proof (cases "int (length (aggregate d @ b)) < AggregationSize (settings d)")
  case True
  then show ?thesis using assms by (simp add: applyAggregation_def Let_def)
next
  case False
  let ?d1 = "d\<lparr>aggregate := aggregate d @ b\<rparr>"
  have sel: "aggregate ?d1 = aggregate d @ b" "settings ?d1 = settings d"
    "marshaller ?d1 = marshaller d" "?d1\<lparr>aggregate := xs\<rparr> = d\<lparr>aggregate := xs\<rparr>" for xs
    by simp_all
  have ne: "aggregate ?d1 \<noteq> []" using False assms by auto
  have nn: "0 \<le> AggregationSize (settings ?d1)" using assms by simp
  have ge: "AggregationSize (settings ?d1) \<le> int (length (aggregate ?d1))"
    using False by simp
  have "applyAggregation d b = flushAggregate ?d1"
    using False assms by (simp add: applyAggregation_def Let_def)
  also note flushAggregate_full[OF nn ge ne]
  finally show ?thesis using False by (simp only: sel if_False)
qed

lemma flushBatch_nonempty:
  assumes "0 \<le> BatchSize (settings d)" and "batch d \<noteq> []"
  shows "flushBatch d =
     Some (d\<lparr>batch := drop (nat (BatchSize (settings d))) (batch d),
             outCh := outCh d @ [take (nat (BatchSize (settings d))) (batch d)]\<rparr>)"
  using flushBatch_eq[OF assms(1)] assms(2) by simp

lemma length_drop_nat:
  "0 \<le> n \<Longrightarrow> n \<le> int (length xs) \<Longrightarrow> int (length (drop (nat n) xs)) = int (length xs) - n"
  by simp

lemma Write_without_aggregation:
  assumes "AggregationSize (settings d) \<le> 1" and "1 \<le> BatchSize (settings d)"
    and "ticker d = Some n"
  shows "Write d b =
     Some (if int (length (batch d @ b)) < BatchSize (settings d)
           then (writeMetricMessageCount d (int (length b)))\<lparr>batch := batch d @ b\<rparr>
           else (writeMetricMessageCount d (int (length b)))
                  \<lparr>batch := drop (nat (BatchSize (settings d))) (batch d @ b),
                   ticker := Some (Suc n),
                   outCh := outCh d @ [take (nat (BatchSize (settings d))) (batch d @ b)]\<rparr>,
           None)"
proof -
  let ?d0 = "writeMetricMessageCount d (int (length b))"
  have s0: "settings ?d0 = settings d" "batch ?d0 = batch d" "ticker ?d0 = ticker d"
    "outCh ?d0 = outCh d"
    by (simp_all add: writeMetricMessageCount_def)
  have a: "applyAggregation ?d0 b = Some (?d0, Inr b)"
    using assms(1) s0 by (simp add: applyAggregation_def)
  show ?thesis
  proof (cases "int (length (batch d @ b)) < BatchSize (settings d)")
    case True
    then show ?thesis using a s0 by (simp add: Write_def Let_def)
  next
    case False
    let ?d2 = "?d0\<lparr>batch := batch d @ b, ticker := Some (Suc n)\<rparr>"
    have ne: "batch ?d2 \<noteq> []" using False assms(2) by auto
    have "0 \<le> BatchSize (settings ?d2)" using assms(2) s0 by simp
    from flushBatch_nonempty[OF this ne]
    have "flushBatch ?d2 = Some (?d0\<lparr>batch := drop (nat (BatchSize (settings d))) (batch d @ b),
                   ticker := Some (Suc n),
                   outCh := outCh d @ [take (nat (BatchSize (settings d))) (batch d @ b)]\<rparr>)"
      using s0 by (simp del: take_append drop_append)
    then show ?thesis using False a s0 assms(3)
      by (simp add: Write_def Let_def del: take_append drop_append)
  qed
qed

lemma flushAll_without_aggregate:
  assumes "aggregate d = []" and "0 \<le> BatchSize (settings d)"
  shows "flushAll d =
     Some (if batch d = [] then d
           else d\<lparr>batch := drop (nat (BatchSize (settings d))) (batch d),
                  outCh := outCh d @ [take (nat (BatchSize (settings d))) (batch d)]\<rparr>, None)"
proof -
  have "d\<lparr>batch := batch d @ []\<rparr> = d" by simp
  then show ?thesis
    using flushAggregate_empty[OF assms(1)] flushBatch_eq[OF assms(2)]
    by (simp add: flushAll_def)
qed

lemma tickerLoop_tick_without_aggregate:
  assumes "aggregate d = []" and "0 \<le> BatchSize (settings d)"
  shows "tickerLoop_tick d =
     Some (if batch d = [] then d
           else d\<lparr>batch := drop (nat (BatchSize (settings d))) (batch d),
                  outCh := outCh d @ [take (nat (BatchSize (settings d))) (batch d)]\<rparr>)"
  using flushAll_without_aggregate[OF assms] by (simp add: tickerLoop_tick_def)

lemma flushAll_eq:
  assumes "0 \<le> AggregationSize (settings d)" and "0 \<le> BatchSize (settings d)"
    and "aggregate d \<noteq> []"
    and "marshaller d (take (nat (AggregationSize (settings d))) (aggregate d))
           [MessageAttributes (settings d), [AttributeAggregate \<mapsto> BoolValue True]] = Inr m"
  shows "flushAll d =
     Some ((writeMetricAggregateSize d
              (int (length (take (nat (AggregationSize (settings d))) (aggregate d)))))
             \<lparr>aggregate := drop (nat (AggregationSize (settings d))) (aggregate d),
              batch := drop (nat (BatchSize (settings d))) (batch d @ [m]),
              outCh := outCh d @ [take (nat (BatchSize (settings d))) (batch d @ [m])]\<rparr>,
           None)"
proof -
  let ?A = "nat (AggregationSize (settings d))"
  let ?d1 = "writeMetricAggregateSize (d\<lparr>aggregate := drop ?A (aggregate d)\<rparr>)
               (int (length (take ?A (aggregate d))))"
  let ?d2 = "?d1\<lparr>batch := batch ?d1 @ [m]\<rparr>"
  have fa: "flushAggregate d = Some (?d1, Inr [m])"
    using flushAggregate_eq[OF assms(1,3)] assms(4) by simp
  have s2: "settings ?d2 = settings d" "batch ?d2 = batch d @ [m]" "outCh ?d2 = outCh d"
    by (simp_all add: writeMetricAggregateSize_def)
  have "0 \<le> BatchSize (settings ?d2)" "batch ?d2 \<noteq> []"
    using assms(2) s2 by simp_all
  from flushBatch_nonempty[OF this]
  have fb: "flushBatch ?d2 =
      Some (?d2\<lparr>batch := drop (nat (BatchSize (settings d))) (batch d @ [m]),
                outCh := outCh d @ [take (nat (BatchSize (settings d))) (batch d @ [m])]\<rparr>)"
    by (simp only: s2)
  show ?thesis
    unfolding flushAll_def fa using fb
    by (simp add: writeMetricAggregateSize_def del: take_append drop_append)
qed

lemma flushAll_takes_front:
  assumes "0 \<le> AggregationSize (settings d)" and "0 \<le> BatchSize (settings d)"
    and "aggregate d \<noteq> [] \<longrightarrow>
           marshaller d (take (nat (AggregationSize (settings d))) (aggregate d))
             [MessageAttributes (settings d), [AttributeAggregate \<mapsto> BoolValue True]] = Inr m"
    and "ready = batch d @ (if aggregate d = [] then [] else [m])"
  shows "\<exists>d'. flushAll d = Some (d', None)
       \<and> aggregate d' = drop (nat (AggregationSize (settings d))) (aggregate d)
       \<and> batch d' = drop (nat (BatchSize (settings d))) ready
       \<and> outCh d' = outCh d @
            (if ready = [] then [] else [take (nat (BatchSize (settings d))) ready])"
proof (cases "aggregate d = []")
  case True
  then have r: "ready = batch d" using assms(4) by simp
  show ?thesis
    using flushAll_without_aggregate[OF True assms(2)] True r by auto
next
  case False
  then have r: "ready = batch d @ [m]" using assms(4) by simp
  from False assms(3) have
    "marshaller d (take (nat (AggregationSize (settings d))) (aggregate d))
       [MessageAttributes (settings d), [AttributeAggregate \<mapsto> BoolValue True]] = Inr m"
    by simp
  from flushAll_eq[OF assms(1,2) False this] show ?thesis
    unfolding r by (auto simp: writeMetricAggregateSize_def simp del: take_append drop_append)
qed

lemma flushBatch_at_threshold:
  assumes "flushBatch d = Some d'"
    and "\<not> int (length (batch d)) < BatchSize (settings d)"
  shows "settings d' = settings d" and "aggregate d' = aggregate d"
    and "(int (length (batch d')) < BatchSize (settings d)) =
         (int (length (batch d)) < 2 * BatchSize (settings d))"
proof -
  show "settings d' = settings d" "aggregate d' = aggregate d"
    using assms(1)
    by (auto simp: flushBatch_def Let_def OutputChannel_Write_def split: if_splits)
  show "(int (length (batch d')) < BatchSize (settings d)) =
        (int (length (batch d)) < 2 * BatchSize (settings d))"
  proof (cases "batch d = []")
    case True
    then have "d' = d" using assms(1) by (simp add: flushBatch_def)
    then show ?thesis using True assms(2) by simp
  next
    case False
    then have nn: "0 \<le> BatchSize (settings d)"
      and b': "batch d' = drop (nat (BatchSize (settings d))) (batch d)"
      using assms
      by (auto simp: flushBatch_def Let_def OutputChannel_Write_def split: if_splits)
    have "int (length (batch d')) = int (length (batch d)) - BatchSize (settings d)"
      unfolding b' using nn assms(2) by (intro length_drop_nat) simp_all
    then show ?thesis by linarith
  qed
qed

lemma Write_lengths_plain:
  assumes W: "Write d b = Some (d', None)"
    and A: "AggregationSize (settings d) \<le> 1"
  shows "settings d' = settings d" and "aggregate d' = aggregate d"
    and "(int (length (batch d')) < BatchSize (settings d)) =
         (int (length (batch d)) + int (length b) < 2 * BatchSize (settings d))"
proof -
  let ?B = "BatchSize (settings d)"
  let ?d0 = "writeMetricMessageCount d (int (length b))"
  have s0: "settings ?d0 = settings d" "aggregate ?d0 = aggregate d"
    "batch ?d0 = batch d" "ticker ?d0 = ticker d"
    by (simp_all add: writeMetricMessageCount_def)
  have a: "applyAggregation ?d0 b = Some (?d0, Inr b)"
    using A s0 by (simp add: applyAggregation_def)
  let ?d2 = "?d0\<lparr>batch := batch d @ b\<rparr>"
  have all: "settings d' = settings d \<and> aggregate d' = aggregate d
      \<and> (int (length (batch d')) < ?B) = (int (length (batch d)) + int (length b) < 2 * ?B)"
  proof (cases "int (length (batch d @ b)) < ?B")
    case True
    then have "d' = ?d2" using W a s0 by (simp add: Write_def Let_def)
    then show ?thesis using True s0 by simp
  next
    case False
    then obtain n where fb: "flushBatch (?d2\<lparr>ticker := Some (Suc n)\<rparr>) = Some d'"
      using W a s0 by (auto simp: Write_def Let_def split: option.splits)
    have "\<not> int (length (batch (?d2\<lparr>ticker := Some (Suc n)\<rparr>)))
            < BatchSize (settings (?d2\<lparr>ticker := Some (Suc n)\<rparr>))"
      using False s0 by simp
    from flushBatch_at_threshold[OF fb this] show ?thesis using s0 by simp
  qed
  then show "settings d' = settings d" "aggregate d' = aggregate d"
    "(int (length (batch d')) < ?B) = (int (length (batch d)) + int (length b) < 2 * ?B)"
    by simp_all
qed

lemma Write_lengths_aggregating:
  assumes W: "Write d b = Some (d', None)"
    and A: "1 < AggregationSize (settings d)"
  shows "settings d' = settings d"
    and "(int (length (aggregate d')) < AggregationSize (settings d)) =
         (int (length (aggregate d @ b)) < 2 * AggregationSize (settings d))"
    and "(int (length (batch d')) < BatchSize (settings d)) =
         (int (length (batch d)) +
            (if int (length (aggregate d @ b)) < AggregationSize (settings d) then 0 else 1)
          < 2 * BatchSize (settings d))"
proof -
  let ?A = "AggregationSize (settings d)"
  let ?B = "BatchSize (settings d)"
  let ?n = "int (length (aggregate d @ b))"
  let ?d0 = "writeMetricMessageCount d (int (length b))"
  have s0: "settings ?d0 = settings d" "aggregate ?d0 = aggregate d"
    "marshaller ?d0 = marshaller d" "batch ?d0 = batch d" "ticker ?d0 = ticker d"
    by (simp_all add: writeMetricMessageCount_def)
  have "1 < AggregationSize (settings ?d0)" using A s0 by simp
  note a = applyAggregation_threshold[OF this, of b, unfolded s0]
  have all: "settings d' = settings d
      \<and> (int (length (aggregate d')) < ?A) = (?n < 2 * ?A)
      \<and> (int (length (batch d')) < ?B) =
          (int (length (batch d)) + (if ?n < ?A then 0 else 1) < 2 * ?B)"
  proof (cases "?n < ?A")
    case True
    then have ap: "applyAggregation ?d0 b = Some (?d0\<lparr>aggregate := aggregate d @ b\<rparr>, Inr [])"
      using a by (simp only: if_True)
    let ?d2 = "?d0\<lparr>aggregate := aggregate d @ b, batch := batch d\<rparr>"
    have f2: "(?n < ?A) = (?n < 2 * ?A)" using True A by linarith
    have "settings d' = settings d \<and> aggregate d' = aggregate d @ b
        \<and> (int (length (batch d')) < ?B) = (int (length (batch d)) + 0 < 2 * ?B)"
    proof (cases "int (length (batch d)) < ?B")
      case small: True
      then have "d' = ?d2" using W ap s0 by (simp add: Write_def Let_def)
      then show ?thesis using small s0 by simp
    next
      case False
      then obtain n where fb: "flushBatch (?d2\<lparr>ticker := Some (Suc n)\<rparr>) = Some d'"
        using W ap s0 by (auto simp: Write_def Let_def split: option.splits)
      have "\<not> int (length (batch (?d2\<lparr>ticker := Some (Suc n)\<rparr>)))
              < BatchSize (settings (?d2\<lparr>ticker := Some (Suc n)\<rparr>))"
        using False s0 by simp
      from flushBatch_at_threshold[OF fb this] show ?thesis using s0 by simp
    qed
    then show ?thesis unfolding if_P[OF True] using f2 by simp
  next
    case False
    let ?rest = "drop (nat ?A) (aggregate d @ b)"
    let ?d1 = "writeMetricAggregateSize (?d0\<lparr>aggregate := ?rest\<rparr>) ?A"
    have rest: "int (length ?rest) = ?n - ?A"
      using False A by (intro length_drop_nat) simp_all
    have s1: "settings ?d1 = settings d" "aggregate ?d1 = ?rest" "batch ?d1 = batch d"
      "ticker ?d1 = ticker d"
      using s0 by (simp_all add: writeMetricAggregateSize_def)
    obtain m where m: "applyAggregation ?d0 b = Some (?d1, Inr [m])"
    proof (cases "marshaller d (take (nat ?A) (aggregate d @ b))
                  [MessageAttributes (settings d), [AttributeAggregate \<mapsto> BoolValue True]]")
      case (Inl err)
      then have "applyAggregation ?d0 b =
          Some (?d1, Inl (Errorf ''can not marshal aggregate'' err))"
        using a False by (simp only: if_False sum.case)
      then show ?thesis using W by (simp add: Write_def Let_def)
    next
      case (Inr m)
      then have "applyAggregation ?d0 b = Some (?d1, Inr [m])"
        using a False by (simp only: if_False sum.case)
      then show ?thesis using that by blast
    qed
    let ?d2 = "?d1\<lparr>batch := batch d @ [m]\<rparr>"
    have agg: "(int (length ?rest) < ?A) = (?n < 2 * ?A)"
      using rest by linarith
    have "settings d' = settings d \<and> aggregate d' = ?rest
        \<and> (int (length (batch d')) < ?B) = (int (length (batch d)) + 1 < 2 * ?B)"
    proof (cases "int (length (batch d)) + 1 < ?B")
      case True
      then have "d' = ?d2" using W m s1 by (simp add: Write_def Let_def)
      then show ?thesis using True s1 by (simp del: drop_append)
    next
      case full: False
      then obtain n where fb: "flushBatch (?d2\<lparr>ticker := Some (Suc n)\<rparr>) = Some d'"
        using W m s1 by (auto simp: Write_def Let_def split: option.splits)
      have "\<not> int (length (batch (?d2\<lparr>ticker := Some (Suc n)\<rparr>)))
              < BatchSize (settings (?d2\<lparr>ticker := Some (Suc n)\<rparr>))"
        using full s1 by simp
      from flushBatch_at_threshold[OF fb this] show ?thesis
        using s1 by (auto simp del: drop_append)
    qed
    then show ?thesis unfolding if_not_P[OF False] using agg by (simp del: drop_append length_append length_drop)
  qed
  then show "settings d' = settings d"
    "(int (length (aggregate d')) < ?A) = (?n < 2 * ?A)"
    "(int (length (batch d')) < ?B) =
       (int (length (batch d)) + (if ?n < ?A then 0 else 1) < 2 * ?B)"
    by simp_all
qed

lemma scenario_Write_25:
  "Write scenario_daemon [0..<25] =
     Some ((writeMetricMessageCount scenario_daemon 25)
             \<lparr>batch := [10..<25], ticker := Some (Suc 0), outCh := [[0..<10]]\<rparr>, None)"
  using Write_without_aggregation[of scenario_daemon 0 "[0..<25]"]
  by (simp add: example_defs)

subsection \<open>Auxiliary facts about the output loop\<close>

lemma Milliseconds_mono: "a \<le> b \<Longrightarrow> Milliseconds a \<le> Milliseconds b"
  unfolding Milliseconds_def
  by (auto simp: zdiv_mono1 intro: order_trans[of _ 0])

lemma outputLoop_empty:
  "outCh d = [] \<Longrightarrow>
   outputLoop isC idle closed d = (d, if closed then Returned None else Suspended)"
  by (simp add: outputLoop.simps[of isC idle closed d] OutputChannel_Read_def)

lemma outputLoop_dequeue:
  "outCh d = b # rest \<Longrightarrow>
   outputLoop isC idle closed d =
     outputLoop isC idle closed
       (outputLoop_turn isC (d\<lparr>outCh := rest\<rparr>) b (idle (length (written d))))"
  by (simp add: outputLoop.simps[of isC idle closed d] OutputChannel_Read_def)

lemma outputLoop_turn_fields:
  "outCh (outputLoop_turn isC d b i) = outCh d"
  "written (outputLoop_turn isC d b i) = written d @ [b]"
  "aggregate (outputLoop_turn isC d b i) = aggregate d"
  "batch (outputLoop_turn isC d b i) = batch d"
  "settings (outputLoop_turn isC d b i) = settings d"
  "name (outputLoop_turn isC d b i) = name d"
  "output' (outputLoop_turn isC d b i) = output' d"
  "ticker (outputLoop_turn isC d b i) = ticker d"
  "marshaller (outputLoop_turn isC d b i) = marshaller d"
  by (simp_all add: outputLoop_turn_def Let_def writeMetricBatchSize_def
        writeMetricIdleDuration_def split: option.splits)

lemma outputLoop_turn_logger:
  "logger (outputLoop_turn isC d b i) =
     logger d @
     (case output' d (length (written d)) b of
        None \<Rightarrow> []
      | Some err \<Rightarrow>
          if isC err
          then [Warn (''can not write messages to output in producer '' @ name d @
                      '' because of canceled context'')]
          else [Error err (''can not write messages to output in producer '' @ name d)])"
  by (simp add: outputLoop_turn_def Let_def writeMetricBatchSize_def
        writeMetricIdleDuration_def split: option.splits)

lemma outputLoop_turn_metric:
  "metric (outputLoop_turn isC d b i) =
     metric d @
     [\<lparr>Priority = 0, MetricName = metricNameBatchSize,
       Dimensions = [''ProducerDaemon'' \<mapsto> name d], Value = int (length b), Unit = ''''\<rparr>,
      \<lparr>Priority = PriorityHigh, MetricName = metricNameIdleDuration,
       Dimensions = [''ProducerDaemon'' \<mapsto> name d],
       Value = Milliseconds (min i (Interval (settings d))),
       Unit = UnitMillisecondsAverage\<rparr>]"
  by (simp add: outputLoop_turn_def Let_def writeMetricBatchSize_def
        writeMetricIdleDuration_def min_def split: option.splits)

lemma outputLoop_end:
  "snd (outputLoop isC idle closed d) = (if closed then Returned None else Suspended)"
proof (induction "outCh d" arbitrary: d)
  case Nil
  then show ?case by (simp add: outputLoop_empty)
next
  case (Cons b rest)
  from Cons(2) have q: "outCh d = b # rest" by simp
  show ?case
    unfolding outputLoop_dequeue[OF q]
    by (rule Cons(1)) (simp add: outputLoop_turn_fields)
qed

lemma outputLoop_fields:
  "outCh (fst (outputLoop isC idle closed d)) = []
   \<and> written (fst (outputLoop isC idle closed d)) = written d @ outCh d
   \<and> aggregate (fst (outputLoop isC idle closed d)) = aggregate d
   \<and> batch (fst (outputLoop isC idle closed d)) = batch d
   \<and> settings (fst (outputLoop isC idle closed d)) = settings d
   \<and> name (fst (outputLoop isC idle closed d)) = name d
   \<and> output' (fst (outputLoop isC idle closed d)) = output' d
   \<and> ticker (fst (outputLoop isC idle closed d)) = ticker d
   \<and> marshaller (fst (outputLoop isC idle closed d)) = marshaller d"
proof (induction "outCh d" arbitrary: d)
  case Nil
  then show ?case by (simp add: outputLoop_empty)
next
  case (Cons b rest)
  from Cons(2) have q: "outCh d = b # rest" by simp
  let ?d' = "outputLoop_turn isC (d\<lparr>outCh := rest\<rparr>) b (idle (length (written d)))"
  have "rest = outCh ?d'" by (simp add: outputLoop_turn_fields)
  from Cons(1)[OF this] show ?case
    unfolding outputLoop_dequeue[OF q] by (simp add: outputLoop_turn_fields q)
qed

lemma outputLoop_logger_aux:
  "name d = n \<Longrightarrow> output' d = out \<Longrightarrow> length (written d) = k \<Longrightarrow>
   logger (fst (outputLoop isC idle closed d)) =
     logger d @
     concat (map (\<lambda>(j, b). case out j b of
                    None \<Rightarrow> []
                  | Some err \<Rightarrow>
                      if isC err
                      then [Warn (''can not write messages to output in producer '' @ n @
                                  '' because of canceled context'')]
                      else [Error err (''can not write messages to output in producer '' @ n)])
               (List.enumerate k (outCh d)))"
proof (induction "outCh d" arbitrary: d k)
  case Nil
  then show ?case by (simp add: outputLoop_empty)
next
  case (Cons b rest)
  from Cons(2) have q: "outCh d = b # rest" by simp
  let ?d' = "outputLoop_turn isC (d\<lparr>outCh := rest\<rparr>) b (idle (length (written d)))"
  have r: "rest = outCh ?d'" by (simp add: outputLoop_turn_fields)
  have "name ?d' = n" "output' ?d' = out" "length (written ?d') = Suc k"
    using Cons(3-5) by (simp_all add: outputLoop_turn_fields)
  from Cons(1)[OF r this] show ?case
    unfolding outputLoop_dequeue[OF q] using Cons(3-5)
    by (simp add: outputLoop_turn_fields outputLoop_turn_logger q split: option.splits)
qed

lemma outputLoop_metric_aux:
  "name d = n \<Longrightarrow> Interval (settings d) = iv \<Longrightarrow> length (written d) = k \<Longrightarrow>
   metric (fst (outputLoop isC idle closed d)) =
     metric d @
     concat (map (\<lambda>(j, b).
        [\<lparr>Priority = 0, MetricName = metricNameBatchSize,
          Dimensions = [''ProducerDaemon'' \<mapsto> n], Value = int (length b), Unit = ''''\<rparr>,
         \<lparr>Priority = PriorityHigh, MetricName = metricNameIdleDuration,
          Dimensions = [''ProducerDaemon'' \<mapsto> n],
          Value = Milliseconds (min (idle j) iv),
          Unit = UnitMillisecondsAverage\<rparr>])
       (List.enumerate k (outCh d)))"
proof (induction "outCh d" arbitrary: d k)
  case Nil
  then show ?case by (simp add: outputLoop_empty)
next
  case (Cons b rest)
  from Cons(2) have q: "outCh d = b # rest" by simp
  let ?d' = "outputLoop_turn isC (d\<lparr>outCh := rest\<rparr>) b (idle (length (written d)))"
  have r: "rest = outCh ?d'" by (simp add: outputLoop_turn_fields)
  have "name ?d' = n" "Interval (settings ?d') = iv" "length (written ?d') = Suc k"
    using Cons(3-5) by (simp_all add: outputLoop_turn_fields)
  from Cons(1)[OF r this] show ?case
    unfolding outputLoop_dequeue[OF q] using Cons(3-5)
    by (simp add: outputLoop_turn_fields outputLoop_turn_metric q)
qed

lemma flushAggregate_core:
  assumes "core d = core d'"
  shows "map_option (\<lambda>(x, r). (core x, r)) (flushAggregate d)
       = map_option (\<lambda>(x, r). (core x, r)) (flushAggregate d')"
  using assms
  by (simp add: flushAggregate_def Let_def writeMetricAggregateSize_def split: sum.splits)

lemma applyAggregation_core:
  assumes "core d = core d'"
  shows "map_option (\<lambda>(x, r). (core x, r)) (applyAggregation d b)
       = map_option (\<lambda>(x, r). (core x, r)) (applyAggregation d' b)"
proof -
  have "core (d\<lparr>aggregate := aggregate d @ b\<rparr>) = core (d'\<lparr>aggregate := aggregate d' @ b\<rparr>)"
    using assms by simp
  from flushAggregate_core[OF this] show ?thesis
    using assms by (simp add: applyAggregation_def Let_def)
qed

lemma flushBatch_core:
  assumes "core d = core d'"
  shows "map_option core (flushBatch d) = map_option core (flushBatch d')"
  using assms by (simp add: flushBatch_def Let_def)

lemma Write_core:
  assumes "core d = core d'"
  shows "map_option (\<lambda>(x, r). (core x, r)) (Write d b)
       = map_option (\<lambda>(x, r). (core x, r)) (Write d' b)"
proof -
  let ?d0 = "writeMetricMessageCount d (int (length b))"
  let ?d0' = "writeMetricMessageCount d' (int (length b))"
  have "core ?d0 = core ?d0'" using assms by (simp add: writeMetricMessageCount_def)
  note A = applyAggregation_core[OF this, of b]
  show ?thesis
  proof (cases "applyAggregation ?d0 b")
    case None
    with A have "applyAggregation ?d0' b = None" by simp
    with None show ?thesis by (simp add: Write_def)
  next
    case (Some p)
    obtain d1 r where p: "p = (d1, r)" by (cases p)
    from A Some p obtain d1' where S': "applyAggregation ?d0' b = Some (d1', r)"
      and c1: "core d1 = core d1'"
      by (cases "applyAggregation ?d0' b") auto
    show ?thesis
    proof (cases r)
      case (Inl err)
      then show ?thesis using Some p S' c1 by (simp add: Write_def)
    next
      case (Inr b')
      have c2: "core (d1\<lparr>batch := batch d1 @ b'\<rparr>) = core (d1'\<lparr>batch := batch d1' @ b'\<rparr>)"
        using c1 by simp
      have c3: "core (d1\<lparr>batch := batch d1 @ b', ticker := Some (Suc n)\<rparr>)
          = core (d1'\<lparr>batch := batch d1' @ b', ticker := Some (Suc n)\<rparr>)" for n
        using c1 by simp
      show ?thesis
      proof (cases "ticker d1")
        case None
        then show ?thesis using Some p S' c1 Inr by (simp add: Write_def Let_def)
      next
        case (Some n)
        have t': "ticker d1' = Some n" using c1 Some by simp
        from flushBatch_core[OF c3[of n]]
        show ?thesis using \<open>applyAggregation ?d0 b = Some p\<close> p S' c1 Inr Some t'
          by (cases "flushBatch (d1\<lparr>batch := batch d1 @ b', ticker := Some (Suc n)\<rparr>)";
              cases "flushBatch (d1'\<lparr>batch := batch d1' @ b', ticker := Some (Suc n)\<rparr>)")
             (simp_all add: Write_def Let_def)
      qed
    qed
  qed
qed

subsection \<open>The aggregator\<close>

text \<open>
  Claim C4. With an aggregation size \<open>A > 1\<close>, \<open>applyAggregation\<close> appends the incoming
  messages to the pending aggregate buffer. While the buffer is shorter than \<open>A\<close> it
  returns no carrier message and keeps everything buffered. Once the buffer holds at
  least \<open>A\<close> messages, exactly the first \<open>A\<close> are taken from its front and handed to the
  marshaller (with the configured attributes and the aggregate flag); the carrier
  message \<open>m\<close> the marshaller returns is the single element of the result, the metric
  \<open>AggregateSize\<close> records \<open>A\<close>, and the messages behind the first \<open>A\<close> stay buffered.
\<close>

theorem applyAggregation_accumulates_then_folds:
  assumes "1 < AggregationSize (settings d)"
  shows "(int (length (aggregate d @ b)) < AggregationSize (settings d) \<longrightarrow>
            applyAggregation d b = Some (d\<lparr>aggregate := aggregate d @ b\<rparr>, Inr []))
       \<and> (AggregationSize (settings d) \<le> int (length (aggregate d @ b)) \<and>
          marshaller d (take (nat (AggregationSize (settings d))) (aggregate d @ b))
            [MessageAttributes (settings d), [AttributeAggregate \<mapsto> BoolValue True]] = Inr m \<longrightarrow>
            applyAggregation d b =
              Some (writeMetricAggregateSize
                      (d\<lparr>aggregate :=
                           drop (nat (AggregationSize (settings d))) (aggregate d @ b)\<rparr>)
                      (AggregationSize (settings d)),
                    Inr [m]))"
  using applyAggregation_threshold[OF assms, of b]
  by (simp del: length_append take_append drop_append)

theorem applyAggregation_accumulates_then_folds_witness:
  "1 < AggregationSize (settings summing_daemon)
   \<and> applyAggregation summing_daemon [1, 2] =
       Some (summing_daemon\<lparr>aggregate := [1, 2]\<rparr>, Inr [])
   \<and> applyAggregation summing_daemon [0, 1, 2, 3, 4, 5, 6] =
       Some (writeMetricAggregateSize (summing_daemon\<lparr>aggregate := [3, 4, 5, 6]\<rparr>) 3,
             Inr [3])"
  using applyAggregation_accumulates_then_folds[of summing_daemon "[1, 2]"]
    applyAggregation_accumulates_then_folds[of summing_daemon "[0, 1, 2, 3, 4, 5, 6]" 3]
  by (simp add: example_defs)

text \<open>
  Claim C5. When a \<open>Write\<close> call triggers an aggregation (aggregation size \<open>A > 1\<close>, the
  buffer with the incoming messages holds at least \<open>A\<close>) and the marshaller returns an
  error, \<open>Write\<close> returns that error, wrapped. The pending batch buffer and the output
  channel are as before the call, and the first \<open>A\<close> messages are gone from the aggregate
  buffer: it holds what was behind them.
\<close>

theorem Write_fold_failure:
  assumes "1 < AggregationSize (settings d)"
    and "AggregationSize (settings d) \<le> int (length (aggregate d @ b))"
    and "marshaller d (take (nat (AggregationSize (settings d))) (aggregate d @ b))
           [MessageAttributes (settings d), [AttributeAggregate \<mapsto> BoolValue True]] = Inl err"
  shows "\<exists>d'. Write d b =
           Some (d', Some (Errorf (''can not apply aggregation in producer '' @ name d)
                             (Errorf ''can not marshal aggregate'' err)))
         \<and> batch d' = batch d
         \<and> outCh d' = outCh d
         \<and> aggregate d' = drop (nat (AggregationSize (settings d))) (aggregate d @ b)"
proof -
  let ?d0 = "writeMetricMessageCount d (int (length b))"
  have s0: "settings ?d0 = settings d" "aggregate ?d0 = aggregate d"
    "marshaller ?d0 = marshaller d"
    by (simp_all add: writeMetricMessageCount_def)
  have "1 < AggregationSize (settings ?d0)" using assms(1) s0 by simp
  from applyAggregation_threshold[OF this]
  have "applyAggregation ?d0 b = Some (writeMetricAggregateSize
             (?d0\<lparr>aggregate := drop (nat (AggregationSize (settings d))) (aggregate d @ b)\<rparr>)
             (AggregationSize (settings d)), Inl (Errorf ''can not marshal aggregate'' err))"
    using assms(2,3) s0 by simp
  then show ?thesis
    by (simp add: Write_def Let_def writeMetricAggregateSize_def writeMetricMessageCount_def)
qed

theorem Write_fold_failure_witness:
  "1 < AggregationSize (settings failing_daemon)
   \<and> (\<exists>d'. Write failing_daemon [0, 1, 2, 3, 4, 5, 6] =
           Some (d', Some (Errorf ''can not apply aggregation in producer failing''
                             (Errorf ''can not marshal aggregate'' (Cause ''marshal''))))
         \<and> batch d' = [] \<and> outCh d' = [] \<and> aggregate d' = [3, 4, 5, 6])"
  using Write_fold_failure[of failing_daemon "[0, 1, 2, 3, 4, 5, 6]" "Cause ''marshal''"]
  by (simp add: example_defs)

subsection \<open>The batcher\<close>

text \<open>
  Claim C6. \<open>flushBatch\<close> does not look at the threshold: from a non-empty pending batch
  buffer it takes the first \<open>BatchSize\<close> messages, or all of them when there are fewer,
  pushes them as one batch onto the output channel and leaves the rest in the buffer in
  their order. On an empty buffer it changes nothing and pushes nothing.
\<close>

theorem flushBatch_moves_front:
  assumes "0 \<le> BatchSize (settings d)"
  shows "(batch d = [] \<longrightarrow> flushBatch d = Some d)
       \<and> (batch d \<noteq> [] \<longrightarrow>
            flushBatch d =
              Some (d\<lparr>batch := drop (nat (BatchSize (settings d))) (batch d),
                      outCh := OutputChannel_Write (outCh d)
                                 (take (nat (BatchSize (settings d))) (batch d))\<rparr>))
       \<and> int (length (take (nat (BatchSize (settings d))) (batch d))) \<le> BatchSize (settings d)
       \<and> take (nat (BatchSize (settings d))) (batch d) @
           drop (nat (BatchSize (settings d))) (batch d) = batch d"
  using assms flushBatch_eq[OF assms] by (simp add: OutputChannel_Write_def)

theorem flushBatch_moves_front_witness:
  "0 \<le> BatchSize (settings (summing_daemon\<lparr>batch := [7, 8, 9]\<rparr>))
   \<and> flushBatch (summing_daemon\<lparr>batch := [7, 8, 9]\<rparr>) =
       Some (summing_daemon\<lparr>batch := [9], outCh := [[7, 8]]\<rparr>)
   \<and> flushBatch summing_daemon = Some summing_daemon"
  using flushBatch_moves_front[of "summing_daemon\<lparr>batch := [7, 8, 9]\<rparr>"]
    flushBatch_moves_front[of summing_daemon]
  by (simp add: example_defs OutputChannel_Write_def)

subsection \<open>Writing one message\<close>

text \<open>
  Claim C10. \<open>WriteOne\<close> with a message is \<open>Write\<close> with the one-element batch of that
  message: both return the same error (or panic alike) and leave the same daemon.
\<close>

theorem WriteOne_is_Write_singleton: "WriteOne d msg = Write d [msg]"
  by (simp add: WriteOne_def)

subsection \<open>The scenario of twenty-five messages\<close>

text \<open>
  Claim C1 says that one \<open>Write\<close> call with 25 messages (batch size 10, no
  aggregation) puts two batches of ten on the way to the sink at once. \<open>Write\<close> calls
  \<open>flushBatch\<close> once: in the scenario the call returns nil with one batch of ten on the
  output channel and fifteen messages still in the pending batch buffer.
\<close>

theorem scenario_write_25_counterexample:
  "Write scenario_daemon [0..<25] \<noteq> None
   \<and> snd (the (Write scenario_daemon [0..<25])) = None
   \<and> outCh (fst (the (Write scenario_daemon [0..<25]))) = [[0..<10]]
   \<and> outCh (fst (the (Write scenario_daemon [0..<25]))) \<noteq> [[0..<10], [10..<20]]
   \<and> batch (fst (the (Write scenario_daemon [0..<25]))) = [10..<25]"
  unfolding scenario_Write_25 by simp

text \<open>
  Claim C1, amended. In the scenario (batch size 10, aggregation size 1, a daemon fresh
  from its constructor whose \<open>Run\<close> has created the ticker) one \<open>Write\<close> call with 25
  messages returns nil and pushes one batch, the first ten messages, onto the output
  channel; the other fifteen stay in the pending batch buffer. The first tick of the
  ticker loop after that pushes the next ten, the second tick pushes the last five and
  leaves the buffer empty. A worker that then runs dequeues the three batches and hands
  them to the sink in this order.
\<close>

theorem scenario_write_25:
  assumes "BatchSize s = 10" and "AggregationSize s = 1" and "length msgs = 25"
  shows "\<exists>d0 d1 d2 d3.
           NewProducerDaemonWithInterfaces out m n s = Some d0
         \<and> Write (Run_ticker d0) msgs = Some (d1, None)
         \<and> outCh d1 = [take 10 msgs] \<and> batch d1 = drop 10 msgs
         \<and> tickerLoop_tick d1 = Some d2
         \<and> outCh d2 = [take 10 msgs, take 10 (drop 10 msgs)] \<and> batch d2 = drop 20 msgs
         \<and> tickerLoop_tick d2 = Some d3
         \<and> outCh d3 = [take 10 msgs, take 10 (drop 10 msgs), drop 20 msgs] \<and> batch d3 = []
         \<and> written (fst (outputLoop isC idle closed d3)) =
             [take 10 msgs, take 10 (drop 10 msgs), drop 20 msgs]
         \<and> outCh (fst (outputLoop isC idle closed d3)) = []"
proof -
  define d0 where "d0 = the (NewProducerDaemonWithInterfaces out m n s)"
  define d where "d = Run_ticker d0"
  have new: "NewProducerDaemonWithInterfaces out m n s = Some d0"
    using assms(1) by (simp add: d0_def NewProducerDaemonWithInterfaces_def)
  have sel: "settings d = s" "batch d = []" "outCh d = []" "ticker d = Some 0"
    "aggregate d = []" "written d = []"
    using assms(1)
    by (simp_all add: d_def d0_def Run_ticker_def NewProducerDaemonWithInterfaces_def)
  let ?d0 = "writeMetricMessageCount d (int (length msgs))"
  let ?d1 = "?d0\<lparr>batch := drop 10 msgs, ticker := Some (Suc 0), outCh := [take 10 msgs]\<rparr>"
  let ?d2 = "?d1\<lparr>batch := drop 20 msgs, outCh := [take 10 msgs, take 10 (drop 10 msgs)]\<rparr>"
  let ?d3 = "?d2\<lparr>batch := [],
                 outCh := [take 10 msgs, take 10 (drop 10 msgs), drop 20 msgs]\<rparr>"
  have w: "Write d msgs = Some (?d1, None)"
    using Write_without_aggregation[of d 0 msgs] sel assms(1-3) by simp
  have s1: "aggregate ?d1 = []" "0 \<le> BatchSize (settings ?d1)" "batch ?d1 \<noteq> []"
    using sel assms(1,3) by (auto simp: writeMetricMessageCount_def)
  have t1: "tickerLoop_tick ?d1 = Some ?d2"
    using tickerLoop_tick_without_aggregate[OF s1(1,2)] s1(3) sel assms(1,3)
    by (simp add: writeMetricMessageCount_def)
  have s2: "aggregate ?d2 = []" "0 \<le> BatchSize (settings ?d2)" "batch ?d2 \<noteq> []"
    using sel assms(1,3) by (auto simp: writeMetricMessageCount_def)
  have t2: "tickerLoop_tick ?d2 = Some ?d3"
    using tickerLoop_tick_without_aggregate[OF s2(1,2)] s2(3) sel assms(1,3)
    by (simp add: writeMetricMessageCount_def)
  have wr: "written (fst (outputLoop isC idle closed ?d3)) =
              [take 10 msgs, take 10 (drop 10 msgs), drop 20 msgs]"
    "outCh (fst (outputLoop isC idle closed ?d3)) = []"
    using sel outputLoop_fields[of isC idle closed ?d3]
    by (simp_all add: writeMetricMessageCount_def)
  show ?thesis
    apply (rule exI[of _ d0], rule exI[of _ ?d1], rule exI[of _ ?d2], rule exI[of _ ?d3])
    using new w t1 t2 wr by (simp add: d_def)
qed

theorem scenario_write_25_witness:
  "length [0..<25::nat] = 25
   \<and> (\<exists>d1 d2 d3.
           Write scenario_daemon [0..<25] = Some (d1, None)
         \<and> outCh d1 = [[0..<10]] \<and> batch d1 = [10..<25]
         \<and> tickerLoop_tick d1 = Some d2
         \<and> outCh d2 = [[0..<10], [10..<20]] \<and> batch d2 = [20..<25]
         \<and> tickerLoop_tick d2 = Some d3
         \<and> outCh d3 = [[0..<10], [10..<20], [20..<25]] \<and> batch d3 = []
         \<and> written (fst (outputLoop (\<lambda>e. False) (\<lambda>k. 5) False d3)) =
             [[0..<10], [10..<20], [20..<25]]
         \<and> outCh (fst (outputLoop (\<lambda>e. False) (\<lambda>k. 5) False d3)) = [])"
  using scenario_write_25[of scenario_settings "[0..<25]" "\<lambda>k b. None"
      "\<lambda>agg attrs. Inr (sum_list agg)" "''scenario''" "\<lambda>e. False" "\<lambda>k. 5" False]
  by (auto simp: scenario_daemon_def scenario_settings_def NewProducerDaemonWithInterfaces_def)

subsection \<open>The forced flush\<close>

text \<open>
  Claim C2 says that a forced flush leaves both pending buffers empty. \<open>flushAll\<close>
  takes at most \<open>AggregationSize\<close> messages from the aggregate buffer and at most
  \<open>BatchSize\<close> messages from the batch buffer: after the \<open>Write\<close> call of the scenario
  above, which leaves fifteen messages in the batch buffer, the forced flush returns nil
  and five messages are still buffered.
\<close>

theorem flushAll_drains_buffers_counterexample:
  "flushAll (fst (the (Write scenario_daemon [0..<25]))) \<noteq> None
   \<and> snd (the (flushAll (fst (the (Write scenario_daemon [0..<25]))))) = None
   \<and> batch (fst (the (flushAll (fst (the (Write scenario_daemon [0..<25])))))) = [20..<25]"
proof -
  let ?d1 = "(writeMetricMessageCount scenario_daemon 25)
             \<lparr>batch := [10..<25], ticker := Some (Suc 0), outCh := [[0..<10]]\<rparr>"
  have "aggregate ?d1 = []" "0 \<le> BatchSize (settings ?d1)"
    by (simp_all add: example_defs writeMetricMessageCount_def)
  from flushAll_without_aggregate[OF this]
  have "flushAll ?d1 = Some (?d1\<lparr>batch := [20..<25], outCh := [[0..<10], [10..<20]]\<rparr>, None)"
    by (simp add: example_defs writeMetricMessageCount_def)
  then show ?thesis unfolding scenario_Write_25 by simp
qed

text \<open>
  Claim C2, amended. Take a forced flush that finds at most \<open>AggregationSize\<close> messages
  in the pending aggregate buffer and whose marshaller succeeds, and let \<open>ready\<close> be the
  pending batch buffer followed by the new carrier message; let it hold at most
  \<open>BatchSize\<close> messages. Then the flush returns nil and both pending buffers are
  drained: whatever was in the aggregate buffer, even below the threshold, is folded into
  one carrier message \<open>m\<close> if the buffer was not empty, and whatever is in \<open>ready\<close>, even
  below the threshold, is pushed as one batch onto the output channel (nothing is pushed
  when it is empty); both buffers are empty afterwards.
\<close>

theorem flushAll_drains_buffers:
  assumes "int (length (aggregate d)) \<le> AggregationSize (settings d)"
    and "aggregate d \<noteq> [] \<longrightarrow>
           marshaller d (aggregate d)
             [MessageAttributes (settings d), [AttributeAggregate \<mapsto> BoolValue True]] = Inr m"
    and "ready = batch d @ (if aggregate d = [] then [] else [m])"
    and "int (length ready) \<le> BatchSize (settings d)"
  shows "\<exists>d'. flushAll d = Some (d', None)
       \<and> aggregate d' = [] \<and> batch d' = []
       \<and> outCh d' = outCh d @ (if ready = [] then [] else [ready])"
proof -
  have nn: "0 \<le> AggregationSize (settings d)" "0 \<le> BatchSize (settings d)"
    using assms(1,4) by linarith+
  have whole: "take (nat (AggregationSize (settings d))) (aggregate d) = aggregate d"
    "drop (nat (AggregationSize (settings d))) (aggregate d) = []"
    "take (nat (BatchSize (settings d))) ready = ready"
    "drop (nat (BatchSize (settings d))) ready = []"
    using assms(1,4) by simp_all
  from flushAll_takes_front[OF nn, of m ready] assms(2,3) show ?thesis
    unfolding whole by simp
qed

theorem flushAll_drains_buffers_witness:
  "\<exists>d'. flushAll (summing_daemon\<lparr>aggregate := [4, 5], batch := [3]\<rparr>) = Some (d', None)
       \<and> aggregate d' = [] \<and> batch d' = [] \<and> outCh d' = [[3, 9]]"
  using flushAll_drains_buffers[of "summing_daemon\<lparr>aggregate := [4, 5], batch := [3]\<rparr>" 9 "[3, 9]"]
  by (auto simp: example_defs)

subsection \<open>The buffers after a write\<close>

text \<open>
  Claim C3 says that after every successful \<open>Write\<close> both buffers are shorter than
  their thresholds. \<open>Write\<close> flushes at most one aggregate and at most one batch: with
  batch size 10 a call with 25 messages returns nil with 15 messages in the batch buffer,
  and with aggregation size 3 a call with 7 messages returns nil with 4 messages in the
  aggregate buffer.
\<close>

theorem Write_keeps_buffers_below_thresholds_counterexample:
  "Write scenario_daemon [0..<25] \<noteq> None
   \<and> snd (the (Write scenario_daemon [0..<25])) = None
   \<and> \<not> int (length (batch (fst (the (Write scenario_daemon [0..<25])))))
         < BatchSize (settings (fst (the (Write scenario_daemon [0..<25]))))
   \<and> Write summing_daemon [0, 1, 2, 3, 4, 5, 6] \<noteq> None
   \<and> snd (the (Write summing_daemon [0, 1, 2, 3, 4, 5, 6])) = None
   \<and> \<not> int (length (aggregate (fst (the (Write summing_daemon [0, 1, 2, 3, 4, 5, 6])))))
         < AggregationSize (settings (fst (the (Write summing_daemon [0, 1, 2, 3, 4, 5, 6]))))"
proof -
  have "Write summing_daemon [0, 1, 2, 3, 4, 5, 6] =
     Some (writeMetricAggregateSize ((writeMetricMessageCount summing_daemon 7)
             \<lparr>aggregate := [3, 4, 5, 6], batch := [3]\<rparr>) 3, None)"
    by (simp add: Write_def applyAggregation_def flushAggregate_def BuildAggregateMessage_def
          Let_def writeMetricMessageCount_def writeMetricAggregateSize_def example_defs)
  then show ?thesis unfolding scenario_Write_25
    by (simp add: example_defs writeMetricMessageCount_def writeMetricAggregateSize_def)
qed

text \<open>
  Claim C3, amended. After a \<open>Write\<close> call that returns nil, the pending aggregate
  buffer is shorter than the aggregation threshold exactly when, with an aggregation
  size above 1, the buffer and the incoming messages together were shorter than twice
  the threshold (with aggregation size 1 the buffer is not touched and is as short as it
  was). The pending batch buffer is shorter than the batch threshold exactly when the
  buffer and the carrier messages the call appends to it were together shorter than
  twice the batch threshold; the call appends all incoming messages when the aggregation
  size is 1, and otherwise the one carrier message of the aggregation it triggers, if
  any. So the thresholds hold on return of every successful call that starts below them
  and brings less than one more threshold's worth, and fail for every other one.
\<close>

theorem Write_keeps_buffers_below_thresholds:
  assumes "Write d b = Some (d', None)"
  shows "(int (length (aggregate d')) < AggregationSize (settings d')) =
           (if 1 < AggregationSize (settings d)
            then int (length (aggregate d @ b)) < 2 * AggregationSize (settings d)
            else int (length (aggregate d)) < AggregationSize (settings d))
       \<and> (int (length (batch d')) < BatchSize (settings d')) =
           (int (length (batch d)) +
              (if 1 < AggregationSize (settings d)
               then (if int (length (aggregate d @ b)) < AggregationSize (settings d)
                     then 0 else 1)
               else int (length b))
            < 2 * BatchSize (settings d))"
proof (cases "1 < AggregationSize (settings d)")
  case True
  from Write_lengths_aggregating[OF assms True] show ?thesis using True by simp
next
  case False
  then have "AggregationSize (settings d) \<le> 1" by simp
  from Write_lengths_plain[OF assms this] show ?thesis using False by simp
qed

theorem Write_keeps_buffers_below_thresholds_witness:
  "Write scenario_daemon [0..<11] \<noteq> None
   \<and> snd (the (Write scenario_daemon [0..<11])) = None
   \<and> batch (fst (the (Write scenario_daemon [0..<11]))) = [10]
   \<and> int (length (aggregate (fst (the (Write scenario_daemon [0..<11])))))
        < AggregationSize (settings (fst (the (Write scenario_daemon [0..<11]))))
   \<and> int (length (batch (fst (the (Write scenario_daemon [0..<11])))))
        < BatchSize (settings (fst (the (Write scenario_daemon [0..<11]))))"
proof -
  have w: "Write scenario_daemon [0..<11] =
     Some ((writeMetricMessageCount scenario_daemon 11)
             \<lparr>batch := [10], ticker := Some (Suc 0), outCh := [[0..<10]]\<rparr>, None)"
    using Write_without_aggregation[of scenario_daemon 0 "[0..<11]"]
    by (simp add: example_defs)
  from Write_keeps_buffers_below_thresholds[OF w] show ?thesis
    unfolding w by (simp add: example_defs writeMetricMessageCount_def)
qed

subsection \<open>The workers\<close>

text \<open>
  Claim C7. Take a worker that runs its output loop on the batches queued on the output
  channel, whatever the sink answers to each call. The loop never returns an error: it
  returns nil once the channel is closed and drained, and is suspended in the read
  otherwise. Every queued batch is dequeued and handed to the sink exactly once, in the
  order queued, so none is retried and the loop goes on to the next batch; the channel
  is empty afterwards and the pending buffers are as before, so no batch is put back.
  For a call the sink fails, the logger gets one line: a warning when the error is
  classified as a cancelled request, the error otherwise. For every batch, failed or
  not, the metrics \<open>BatchSize\<close> and \<open>IdleDuration\<close> are recorded. A \<open>Write\<close> call after
  the loop returns what it would have returned before it: the sink's errors do not
  reach the callers of \<open>Write\<close>.
\<close>

theorem outputLoop_write_errors_are_logged_and_dropped:
  "snd (outputLoop isC idle closed d) = (if closed then Returned None else Suspended)
   \<and> outCh (fst (outputLoop isC idle closed d)) = []
   \<and> written (fst (outputLoop isC idle closed d)) = written d @ outCh d
   \<and> aggregate (fst (outputLoop isC idle closed d)) = aggregate d
   \<and> batch (fst (outputLoop isC idle closed d)) = batch d
   \<and> logger (fst (outputLoop isC idle closed d)) =
       logger d @
       concat (map (\<lambda>(k, b). case output' d k b of
                          None \<Rightarrow> []
                        | Some err \<Rightarrow>
                            if isC err
                            then [Warn (''can not write messages to output in producer '' @
                                        name d @ '' because of canceled context'')]
                            else [Error err (''can not write messages to output in producer '' @
                                             name d)])
                 (List.enumerate (length (written d)) (outCh d)))
   \<and> metric (fst (outputLoop isC idle closed d)) =
       metric d @
       concat (map (\<lambda>(k, b).
         [\<lparr>Priority = 0, MetricName = metricNameBatchSize,
           Dimensions = [''ProducerDaemon'' \<mapsto> name d],
           Value = int (length b), Unit = ''''\<rparr>,
          \<lparr>Priority = PriorityHigh, MetricName = metricNameIdleDuration,
           Dimensions = [''ProducerDaemon'' \<mapsto> name d],
           Value = Milliseconds (min (idle k) (Interval (settings d))),
           Unit = UnitMillisecondsAverage\<rparr>])
         (List.enumerate (length (written d)) (outCh d)))
   \<and> map_option snd (Write (fst (outputLoop isC idle closed d)) b) = map_option snd (Write d b)"
proof -
  note f = outputLoop_fields[of isC idle closed d]
  have c: "core (fst (outputLoop isC idle closed d)) = core d"
    using f by simp
  have w: "map_option snd (Write (fst (outputLoop isC idle closed d)) b)
         = map_option snd (Write d b)"
  proof -
    have "map_option snd (map_option (\<lambda>(x, r). (core x, r))
              (Write (fst (outputLoop isC idle closed d)) b))
        = map_option snd (map_option (\<lambda>(x, r). (core x, r)) (Write d b))"
      using Write_core[OF c, of b] by simp
    then show ?thesis by (simp add: option.map_comp comp_def case_prod_unfold)
  qed
  show ?thesis
    using outputLoop_end[of isC idle closed d] f
      outputLoop_logger_aux[OF refl refl refl, of isC idle closed d]
      outputLoop_metric_aux[OF refl refl refl, of isC idle closed d] w
    by blast
qed

text \<open>
  An instance: three equal batches, a sink that fails the first call with a cancelled
  request, accepts the second and fails the third with another error.
\<close>

theorem outputLoop_write_errors_are_logged_and_dropped_witness:
  "snd (outputLoop (\<lambda>e. e = Cause ''canceled'') (\<lambda>k. 7000000) True
          (flaky_daemon\<lparr>outCh := [[1, 2], [1, 2], [1, 2]]\<rparr>)) = Returned None
   \<and> outCh (fst (outputLoop (\<lambda>e. e = Cause ''canceled'') (\<lambda>k. 7000000) True
          (flaky_daemon\<lparr>outCh := [[1, 2], [1, 2], [1, 2]]\<rparr>))) = []
   \<and> written (fst (outputLoop (\<lambda>e. e = Cause ''canceled'') (\<lambda>k. 7000000) True
          (flaky_daemon\<lparr>outCh := [[1, 2], [1, 2], [1, 2]]\<rparr>))) = [[1, 2], [1, 2], [1, 2]]
   \<and> logger (fst (outputLoop (\<lambda>e. e = Cause ''canceled'') (\<lambda>k. 7000000) True
          (flaky_daemon\<lparr>outCh := [[1, 2], [1, 2], [1, 2]]\<rparr>))) =
       [Warn ''can not write messages to output in producer flaky because of canceled context'',
        Error (Cause ''broken'') ''can not write messages to output in producer flaky'']
   \<and> map Value (metric (fst (outputLoop (\<lambda>e. e = Cause ''canceled'') (\<lambda>k. 7000000) True
          (flaky_daemon\<lparr>outCh := [[1, 2], [1, 2], [1, 2]]\<rparr>)))) = [2, 7, 2, 7, 2, 7]"
  using outputLoop_write_errors_are_logged_and_dropped
    [of "\<lambda>e. e = Cause ''canceled''" "\<lambda>k. 7000000" True
        "flaky_daemon\<lparr>outCh := [[1, 2], [1, 2], [1, 2]]\<rparr>"]
  by (simp add: example_defs enumerate_eq_zip Milliseconds_def upt_rec_numeral)

text \<open>
  Claim C8. The idle-duration metric records the milliseconds of the smaller of the
  measured idle duration and the configured interval, so its value is at most the
  milliseconds of the interval. This holds for the datum of every batch the output loop
  dequeues.
\<close>

theorem idle_duration_metric_clamped:
  "metric (writeMetricIdleDuration d idleDuration) =
     metric d @
       [\<lparr>Priority = PriorityHigh, MetricName = metricNameIdleDuration,
         Dimensions = [''ProducerDaemon'' \<mapsto> name d],
         Value = Milliseconds (min idleDuration (Interval (settings d))),
         Unit = UnitMillisecondsAverage\<rparr>]
   \<and> Milliseconds (min idleDuration (Interval (settings d))) \<le> Milliseconds (Interval (settings d))
   \<and> map Value (filter (\<lambda>x. MetricName x = metricNameIdleDuration)
                  (metric (fst (outputLoop isC idle closed d)))) =
       map Value (filter (\<lambda>x. MetricName x = metricNameIdleDuration) (metric d)) @
       map (\<lambda>(k, b). Milliseconds (min (idle k) (Interval (settings d))))
         (List.enumerate (length (written d)) (outCh d))
   \<and> list_all (\<lambda>v. v \<le> Milliseconds (Interval (settings d)))
       (map (\<lambda>(k, b). Milliseconds (min (idle k) (Interval (settings d))))
          (List.enumerate (length (written d)) (outCh d)))"
proof -
  have 1: "metric (writeMetricIdleDuration d idleDuration) =
     metric d @
       [\<lparr>Priority = PriorityHigh, MetricName = metricNameIdleDuration,
         Dimensions = [''ProducerDaemon'' \<mapsto> name d],
         Value = Milliseconds (min idleDuration (Interval (settings d))),
         Unit = UnitMillisecondsAverage\<rparr>]"
    by (simp add: writeMetricIdleDuration_def Let_def min_def)
  have 2: "Milliseconds (min i (Interval (settings d))) \<le> Milliseconds (Interval (settings d))"
    for i by (rule Milliseconds_mono) simp
  have 3: "map Value (filter (\<lambda>x. MetricName x = metricNameIdleDuration)
                  (metric (fst (outputLoop isC idle closed d)))) =
       map Value (filter (\<lambda>x. MetricName x = metricNameIdleDuration) (metric d)) @
       map (\<lambda>(k, b). Milliseconds (min (idle k) (Interval (settings d))))
         (List.enumerate (length (written d)) (outCh d))"
  proof -
    have "map Value (filter (\<lambda>x. MetricName x = metricNameIdleDuration)
            (concat (map (\<lambda>(j, b).
               [\<lparr>Priority = 0, MetricName = metricNameBatchSize,
                 Dimensions = [''ProducerDaemon'' \<mapsto> name d], Value = int (length b),
                 Unit = ''''\<rparr>,
                \<lparr>Priority = PriorityHigh, MetricName = metricNameIdleDuration,
                 Dimensions = [''ProducerDaemon'' \<mapsto> name d],
                 Value = Milliseconds (min (idle j) (Interval (settings d))),
                 Unit = UnitMillisecondsAverage\<rparr>])
              (List.enumerate k q)))) =
          map (\<lambda>(k, b). Milliseconds (min (idle k) (Interval (settings d))))
            (List.enumerate k q)" for k and q :: "'a list list"
      by (induction q arbitrary: k)
         (simp_all add: metricNameIdleDuration_def metricNameBatchSize_def)
    then show ?thesis
      unfolding outputLoop_metric_aux[OF refl refl refl] by simp
  qed
  have 4: "list_all (\<lambda>v. v \<le> Milliseconds (Interval (settings d)))
       (map (\<lambda>(k, b). Milliseconds (min (idle k) (Interval (settings d))))
          (List.enumerate (length (written d)) (outCh d)))"
    using 2 by (simp add: list_all_iff case_prod_unfold)
  show ?thesis using 1 2 3 4 by blast
qed

subsection \<open>The registry\<close>

text \<open>
  After a failed construction the name is in the table with a nil pointer, because the
  assignment precedes the test of the error: the next call for the name returns nil
  with a nil error and constructs nothing.
\<close>

lemma ProvideProducerDaemon_after_failed_construction:
  assumes "producerDaemons s n = None" and "NewProducerDaemon env config n = Some (Inl err)"
  shows "ProvideProducerDaemon env s config n =
           Some (s\<lparr>producerDaemons := (producerDaemons s)(n \<mapsto> None)\<rparr>, None, Some err)"
    and "ProvideProducerDaemon env' (s\<lparr>producerDaemons := (producerDaemons s)(n \<mapsto> None)\<rparr>)
           config' n =
           Some (s\<lparr>producerDaemons := (producerDaemons s)(n \<mapsto> None)\<rparr>, None, None)"
  using assms by (simp_all add: ProvideProducerDaemon_def)

text \<open>
  Claim C9. A call of \<open>ProvideProducerDaemon\<close> for a name under which a daemon is
  registered returns that instance and changes nothing, whatever the configuration. For
  a name that is not in the table it calls \<open>NewProducerDaemon\<close>: the daemon built is
  allocated, registered under the name and returned, and no other name's entry changes;
  an error of the constructor is returned with a nil pointer, nothing is allocated and
  no other name's entry changes; a panic of the constructor ends the call. When a call
  has returned an instance with a nil error, the instance is registered under the name
  and a second call for the name returns the same instance; every call, for whatever
  name, keeps a registered instance registered. A daemon is allocated only in a call
  for a name under which no daemon is registered.
\<close>

theorem ProvideProducerDaemon_lookup_or_create:
  "(producerDaemons s n = Some (Some q) \<longrightarrow>
      ProvideProducerDaemon env s config n = Some (s, Some q, None))
   \<and> (producerDaemons s n = None \<and> NewProducerDaemon env config n = Some (Inr d) \<longrightarrow>
      ProvideProducerDaemon env s config n =
        Some (s\<lparr>heap := heap s @ [d],
                producerDaemons := (producerDaemons s)(n \<mapsto> Some (length (heap s)))\<rparr>,
              Some (length (heap s)), None))
   \<and> (producerDaemons s n = None \<and> NewProducerDaemon env config n = Some (Inl err) \<longrightarrow>
      (\<exists>s1. ProvideProducerDaemon env s config n = Some (s1, None, Some err)
          \<and> heap s1 = heap s
          \<and> (\<forall>n'. n' \<noteq> n \<longrightarrow> producerDaemons s1 n' = producerDaemons s n')))
   \<and> (producerDaemons s n = None \<and> NewProducerDaemon env config n = None \<longrightarrow>
      ProvideProducerDaemon env s config n = None)
   \<and> (ProvideProducerDaemon env s config n = Some (s', Some p, None) \<longrightarrow>
      producerDaemons s' n = Some (Some p)
      \<and> ProvideProducerDaemon env_b s' config_b n = Some (s', Some p, None))
   \<and> (producerDaemons s n_b = Some (Some p_b) \<and>
      ProvideProducerDaemon env s config n = Some (s', r) \<longrightarrow>
      producerDaemons s' n_b = Some (Some p_b))
   \<and> (ProvideProducerDaemon env s config n = Some (s', r) \<and> heap s' \<noteq> heap s \<longrightarrow>
      (\<forall>p'. producerDaemons s n \<noteq> Some (Some p')))"
proof -
  have a: "producerDaemons s n = Some (Some q) \<Longrightarrow>
      ProvideProducerDaemon env s config n = Some (s, Some q, None)"
    by (simp add: ProvideProducerDaemon_def)
  have b: "producerDaemons s n = None \<Longrightarrow> NewProducerDaemon env config n = Some (Inr d) \<Longrightarrow>
      ProvideProducerDaemon env s config n =
        Some (s\<lparr>heap := heap s @ [d],
                producerDaemons := (producerDaemons s)(n \<mapsto> Some (length (heap s)))\<rparr>,
              Some (length (heap s)), None)"
    by (simp add: ProvideProducerDaemon_def Let_def)
  have c: "producerDaemons s n = None \<Longrightarrow> NewProducerDaemon env config n = Some (Inl err) \<Longrightarrow>
      \<exists>s1. ProvideProducerDaemon env s config n = Some (s1, None, Some err)
          \<and> heap s1 = heap s
          \<and> (\<forall>n'. n' \<noteq> n \<longrightarrow> producerDaemons s1 n' = producerDaemons s n')"
    by (simp add: ProvideProducerDaemon_def)
  have d: "producerDaemons s n = None \<Longrightarrow> NewProducerDaemon env config n = None \<Longrightarrow>
      ProvideProducerDaemon env s config n = None"
    by (simp add: ProvideProducerDaemon_def)
  have e: "ProvideProducerDaemon env s config n = Some (s', Some p, None) \<Longrightarrow>
      producerDaemons s' n = Some (Some p)"
    by (auto simp: ProvideProducerDaemon_def Let_def split: option.splits sum.splits)
  have e2: "ProvideProducerDaemon env s config n = Some (s', Some p, None) \<Longrightarrow>
      ProvideProducerDaemon env_b s' config_b n = Some (s', Some p, None)"
    using e by (simp add: ProvideProducerDaemon_def)
  have f: "producerDaemons s n_b = Some (Some p_b) \<Longrightarrow>
      ProvideProducerDaemon env s config n = Some (s', r) \<Longrightarrow>
      producerDaemons s' n_b = Some (Some p_b)"
    by (auto simp: ProvideProducerDaemon_def Let_def split: option.splits sum.splits)
  have g: "ProvideProducerDaemon env s config n = Some (s', r) \<Longrightarrow> heap s' \<noteq> heap s \<Longrightarrow>
      \<forall>p'. producerDaemons s n \<noteq> Some (Some p')"
    by (auto simp: ProvideProducerDaemon_def Let_def split: option.splits sum.splits)
  show ?thesis using a b c d e e2 f g by blast
qed

theorem ProvideProducerDaemon_lookup_or_create_witness:
  "ProvideProducerDaemon scenario_collaborators no_daemons True ''events'' =
     Some (\<lparr>producerDaemons = [''events'' \<mapsto> Some 0],
            heap = [the (NewProducerDaemonWithInterfaces (\<lambda>k b. None)
                           (\<lambda>agg attrs. Inr (sum_list agg)) ''events'' scenario_settings)]\<rparr>,
           Some 0, None)
   \<and> ProvideProducerDaemon scenario_collaborators
       \<lparr>producerDaemons = [''events'' \<mapsto> Some 0],
        heap = [the (NewProducerDaemonWithInterfaces (\<lambda>k b. None)
                       (\<lambda>agg attrs. Inr (sum_list agg)) ''events'' scenario_settings)]\<rparr>
       False ''events'' =
     Some (\<lparr>producerDaemons = [''events'' \<mapsto> Some 0],
            heap = [the (NewProducerDaemonWithInterfaces (\<lambda>k b. None)
                           (\<lambda>agg attrs. Inr (sum_list agg)) ''events'' scenario_settings)]\<rparr>,
           Some 0, None)
   \<and> snd (the (ProvideProducerDaemon scenario_collaborators no_daemons False ''events'')) =
       (None, Some (Errorf ''can not create output for producer daemon events''
                      (Cause ''no output'')))"
proof -
  let ?d = "the (NewProducerDaemonWithInterfaces (\<lambda>k b. None)
                   (\<lambda>agg attrs. Inr (sum_list agg)) ''events'' scenario_settings)"
  let ?s1 = "\<lparr>producerDaemons = [''events'' \<mapsto> Some 0], heap = [?d]\<rparr>"
  let ?err = "Errorf ''can not create output for producer daemon events'' (Cause ''no output'')"
  have absent: "producerDaemons no_daemons ''events'' = None"
    by (simp add: no_daemons_def)
  have new: "NewProducerDaemon scenario_collaborators True ''events'' = Some (Inr ?d)"
    by (simp add: NewProducerDaemon_def NewProducerDaemonWithInterfaces_def
          scenario_collaborators_def scenario_settings_def)
  have fails: "NewProducerDaemon scenario_collaborators False ''events'' = Some (Inl ?err)"
    by (simp add: NewProducerDaemon_def scenario_collaborators_def)
  note T = ProvideProducerDaemon_lookup_or_create
    [where s = no_daemons and n = "''events''" and env = scenario_collaborators
       and config = True and d = ?d and s' = ?s1 and p = 0
       and env_b = scenario_collaborators and config_b = False]
  note F = ProvideProducerDaemon_lookup_or_create
    [where s = no_daemons and n = "''events''" and env = scenario_collaborators
       and config = False and err = ?err]
  have c1: "ProvideProducerDaemon scenario_collaborators no_daemons True ''events'' =
      Some (?s1, Some 0, None)"
    using T absent new by (simp add: no_daemons_def)
  have c2: "ProvideProducerDaemon scenario_collaborators ?s1 False ''events'' =
      Some (?s1, Some 0, None)"
    using T[THEN conjunct2, THEN conjunct2, THEN conjunct2, THEN conjunct2, THEN conjunct1,
        rule_format, OF c1]
    by (rule conjunct2)
  have c3: "snd (the (ProvideProducerDaemon scenario_collaborators no_daemons False ''events''))
      = (None, Some ?err)"
  proof -
    note F3 = F[THEN conjunct2, THEN conjunct2, THEN conjunct1, rule_format]
    from F3[OF conjI[OF absent fails]] obtain s1 where
      "ProvideProducerDaemon scenario_collaborators no_daemons False ''events'' =
         Some (s1, None, Some ?err)"
      by (elim exE conjE)
    then show ?thesis by simp
  qed
  show ?thesis using c1 c2 c3 by blast
qed

end
